theory Spec2Isabelle
  imports Main "HOL-Library.Word"
begin

section \<open>The Copernicus DataSpace client of download\_datasets.py\<close>

text \<open>
  The module has four functions: \<open>get_access_token\<close> (one POST to the identity
  provider), \<open>search_products\<close> (one GET to the catalogue, first row of the answer),
  \<open>download_products\<close> (token, streamed GET, directory, file) and the loop
  \<open>search_and_download_datasets\<close>. Everything they do happens through the network, the
  local file system and standard output, so the embedding threads a state through every
  function and records each outside call in a trace. What the outside answers is a
  parameter of the model (\<open>env\<close>); an exception is the \<open>Inl\<close> branch of the result.
\<close>

subsection \<open>Values\<close>

type_synonym byte = "8 word"

text \<open>A \<open>datetime.date\<close>.\<close>

record date =
  year :: nat
  month :: nat
  day :: nat

text \<open>
  \<open>date.strftime("%Y%m%d")\<close>: the year on four digits, the month and the day on two,
  each padded with zeros (for a year below 1000 the padding of \<open>%Y\<close> is left to the
  C library; the model pads, as the documentation of Python shows it).
\<close>

definition digit :: "nat \<Rightarrow> char" where
  "digit n = ''0123456789'' ! (n mod 10)"

definition strftime_Ymd :: "date \<Rightarrow> string" where
  "strftime_Ymd d =
     [digit (year d div 1000), digit (year d div 100), digit (year d div 10), digit (year d),
      digit (month d div 10), digit (month d),
      digit (day d div 10), digit (day d)]"

text \<open>
  Arguments that the functions accept and never read (\<open>search_string\<close>, \<open>satellite\<close>,
  \<open>query_args\<close>): Python takes any object there.
\<close>

datatype pyarg = PyNone | PyString string | PyDate date | PyDict "(string \<times> string) list"

text \<open>
  A cell of the data frame built from the catalogue's answer: the string of the JSON
  member, or NaN where the row has no such member and another row has. \<open>py_str\<close> is
  what an f-string or \<open>print\<close> shows for it.
\<close>

datatype cell = Str string | NaN

fun py_str :: "cell \<Rightarrow> string" where
  "py_str (Str s) = s"
| "py_str NaN = ''nan''"

text \<open>The dict returned by \<open>search_products\<close>, with its four keys.\<close>

record product =
  ids :: cell
  names :: cell
  tiles :: string
  origin_dates :: cell

subsection \<open>Exceptions\<close>

text \<open>
  \<open>AccessTokenCreationFailed payload\<close> is the \<open>Exception\<close> raised by
  \<open>get_access_token\<close>, whose message is
  \<open>Access token creation failed. Reponse from the server was: \<close> followed by the
  parsed JSON body \<open>payload\<close>. \<open>ConnectionError\<close> stands for any exception of the
  requests library on a transport failure, \<open>ChunkedEncodingError\<close> for a stream
  that breaks while it is read.
\<close>

datatype error =
    UnboundLocalError string
  | ConnectionError
  | JSONDecodeError
  | KeyError string
  | IndexError
  | AccessTokenCreationFailed "string \<rightharpoonup> string"
  | FileExistsError string
  | FileNotFoundError string
  | NotADirectoryError string
  | IsADirectoryError string
  | ChunkedEncodingError

subsection \<open>The outside world\<close>

text \<open>
  An HTTP call either fails in transport (the library raises) or returns a response
  with a status code and a body. The body of the identity provider is \<open>None\<close> when it
  is not JSON (\<open>r.json()\<close> raises) and otherwise a JSON object, read as a dict with
  string members. The body of the catalogue is \<open>None\<close> when it is not JSON, \<open>NoValue\<close>
  for a JSON object without the member \<open>value\<close>, and \<open>Value rows\<close> for an object whose
  \<open>value\<close> is an array of objects, each read as a dict with string members. The body of
  the download endpoint is the list of chunks that \<open>iter_content\<close> yields, and a flag
  telling whether the stream breaks after the last of them.
\<close>

datatype 'b http_result = TransportFailure | Response nat 'b

datatype catalogue_doc = NoValue | Value "(string \<rightharpoonup> string) list"

type_synonym token_body = "(string \<rightharpoonup> string) option"
type_synonym catalogue_body = "catalogue_doc option"
type_synonym stream_body = "byte list list \<times> bool"

text \<open>Every call that leaves the process, in the order it is made.\<close>

datatype event =
    Post string "(string \<times> string) list"
  | Get string
  | SessionGet string "(string \<times> string) list"
  | Makedirs string
  | OpenWb string
  | Write string "byte list"
  | Print string

text \<open>
  The servers: each answer may depend on the request and on everything that happened
  before it.
\<close>

record env =
  requests_post :: "event list \<Rightarrow> string \<Rightarrow> (string \<times> string) list \<Rightarrow> token_body http_result"
  requests_get :: "event list \<Rightarrow> string \<Rightarrow> catalogue_body http_result"
  session_get :: "event list \<Rightarrow> string \<Rightarrow> (string \<times> string) list \<Rightarrow> stream_body http_result"

text \<open>
  The local side: the paths that are directories, the regular files with their content,
  and the trace. A path is the string the program passes, and two strings are two
  paths. Symbolic links, permissions and disk space are not represented.
\<close>

record state =
  dirs :: "string set"
  files :: "string \<rightharpoonup> byte list"
  trace :: "event list"

type_synonym 'a io = "state \<Rightarrow> (error + 'a) \<times> state"

definition io_return :: "'a \<Rightarrow> 'a io" where
  "io_return x st = (Inr x, st)"

definition io_raise :: "error \<Rightarrow> 'a io" where
  "io_raise e st = (Inl e, st)"

definition io_bind :: "'a io \<Rightarrow> ('a \<Rightarrow> 'b io) \<Rightarrow> 'b io" where
  "io_bind m f st = (case m st of (Inl e, st') \<Rightarrow> (Inl e, st') | (Inr x, st') \<Rightarrow> f x st')"

definition io_lift :: "error + 'a \<Rightarrow> 'a io" where
  "io_lift r st = (r, st)"

definition emit :: "event \<Rightarrow> state \<Rightarrow> state" where
  "emit ev st = st\<lparr>trace := trace st @ [ev]\<rparr>"

definition py_print :: "string \<Rightarrow> unit io" where
  "py_print s st = (Inr (), emit (Print s) st)"

text \<open>
  \<open>os.path.dirname\<close>: the path up to its last slash, without the slashes that end it
  (unless it is made of slashes only); empty when the path has no slash.
\<close>

definition dirname :: "string \<Rightarrow> string" where
  "dirname p =
     (let head = rev (dropWhile (\<lambda>c. c \<noteq> CHR ''/'') (rev p))
      in if list_all (\<lambda>c. c = CHR ''/'') head then head
         else rev (dropWhile (\<lambda>c. c = CHR ''/'') (rev head)))"

text \<open>
  The directories above a path, outermost first: every part of the path that ends
  before a slash. \<open>seen\<close> is what has been read of the path so far.
\<close>

fun ancestors_from :: "string \<Rightarrow> string \<Rightarrow> string list" where
  "ancestors_from seen [] = []"
| "ancestors_from seen (c # rest) =
     (if c = CHR ''/'' \<and> seen \<noteq> [] \<and> last seen \<noteq> CHR ''/''
      then seen # ancestors_from (seen @ [c]) rest
      else ancestors_from (seen @ [c]) rest)"

definition ancestors :: "string \<Rightarrow> string list" where
  "ancestors p = ancestors_from [] p"

text \<open>\<open>os.path.exists\<close>: true for a directory and for a regular file.\<close>

definition path_exists :: "state \<Rightarrow> string \<Rightarrow> bool" where
  "path_exists st p = (p \<in> dirs st \<or> files st p \<noteq> None)"

text \<open>
  \<open>os.makedirs(p)\<close> without \<open>exist_ok\<close>: creates the directory and every directory
  above it that is missing. It raises when something is at the path already, and when
  a regular file stands where a directory above the path is needed.
\<close>

definition os_makedirs :: "string \<Rightarrow> unit io" where
  "os_makedirs p st =
     (if p = [] then (Inl (FileNotFoundError p), st)
      else if path_exists st p then (Inl (FileExistsError p), st)
      else if list_ex (\<lambda>q. files st q \<noteq> None) (ancestors p)
      then (Inl (NotADirectoryError p), st)
      else (Inr (), emit (Makedirs p)
                      (st\<lparr>dirs := dirs st \<union> set (ancestors p) \<union> {p}\<rparr>)))"

text \<open>
  \<open>open(p, 'wb')\<close>: creates the file or truncates it. The directory part of the path
  must be a directory (an empty directory part is the current directory): the call
  raises when a regular file is there and when nothing is there.
\<close>

definition open_wb :: "string \<Rightarrow> unit io" where
  "open_wb p st =
     (if p \<in> dirs st then (Inl (IsADirectoryError p), st)
      else if files st (dirname p) \<noteq> None then (Inl (NotADirectoryError p), st)
      else if dirname p \<noteq> [] \<and> dirname p \<notin> dirs st then (Inl (FileNotFoundError p), st)
      else (Inr (), emit (OpenWb p) (st\<lparr>files := (files st)(p \<mapsto> [])\<rparr>)))"

text \<open>\<open>file.write(chunk)\<close> on the file opened at \<open>p\<close>.\<close>

definition file_write :: "string \<Rightarrow> byte list \<Rightarrow> unit io" where
  "file_write p chunk st =
     (Inr (), emit (Write p chunk)
        (st\<lparr>files := (files st)(p \<mapsto> (case files st p of None \<Rightarrow> chunk | Some b \<Rightarrow> b @ chunk))\<rparr>))"

subsection \<open>base.py\<close>

definition Dataspace_username :: string where
  "Dataspace_username = ''''"

definition Dataspace_password :: string where
  "Dataspace_password = ''''"

definition tiles_test :: "string list" where
  "tiles_test = [''16QEJ'', ''16QDH'']"

subsection \<open>get\_access\_token\<close>

definition token_url :: string where
  "token_url = ''https://identity.dataspace.copernicus.eu/auth/realms/CDSE/protocol/openid-connect/token''"

definition token_data :: "string \<Rightarrow> string \<Rightarrow> (string \<times> string) list" where
  "token_data username password =
     [(''client_id'', ''cdse-public''), (''username'', username),
      (''password'', password), (''grant_type'', ''password'')]"

text \<open>
  \<open>Response.raise_for_status()\<close> of the requests library raises \<open>HTTPError\<close> for the
  status codes 400 to 599 and for no other.
\<close>

definition raise_for_status :: "nat \<Rightarrow> bool" where
  "raise_for_status status_code = (400 \<le> status_code \<and> status_code < 600)"

text \<open>
  The \<open>try\<close> block covers the POST and the status check, and its handler evaluates
  \<open>r.json()\<close> to build the message. When the POST itself raises, \<open>r\<close> was never
  assigned and the handler fails on reading it; when the body is not JSON, \<open>r.json()\<close>
  raises in the handler. After the \<open>try\<close>, \<open>r.json()["access_token"]\<close> is returned.
\<close>

definition get_access_token :: "env \<Rightarrow> string \<Rightarrow> string \<Rightarrow> string io" where
  "get_access_token e username password st =
     (let data = token_data username password;
          st1 = emit (Post token_url data) st
      in case requests_post e (trace st) token_url data of
           TransportFailure \<Rightarrow> (Inl (UnboundLocalError ''r''), st1)
         | Response status_code body \<Rightarrow>
             if raise_for_status status_code
             then (case body of
                     None \<Rightarrow> (Inl JSONDecodeError, st1)
                   | Some payload \<Rightarrow> (Inl (AccessTokenCreationFailed payload), st1))
             else (case body of
                     None \<Rightarrow> (Inl JSONDecodeError, st1)
                   | Some doc \<Rightarrow>
                       (case doc ''access_token'' of
                          None \<Rightarrow> (Inl (KeyError ''access_token''), st1)
                        | Some tok \<Rightarrow> (Inr tok, st1))))"

subsection \<open>search\_products\<close>

definition catalogue_url :: "string \<Rightarrow> string \<Rightarrow> string" where
  "catalogue_url date tile =
     ''https://catalogue.dataspace.copernicus.eu/odata/v1/Products?$filter=contains(Name, ''
     @ [CHR 0x27] @ date @ [CHR 0x27] @ '') and contains(Name, ''
     @ [CHR 0x27] @ tile @ [CHR 0x27] @ '')''"

text \<open>\<open>requests.get(url).json()\<close>: no status check.\<close>

definition requests_get_json :: "env \<Rightarrow> string \<Rightarrow> catalogue_doc io" where
  "requests_get_json e url st =
     (let st1 = emit (Get url) st
      in case requests_get e (trace st) url of
           TransportFailure \<Rightarrow> (Inl ConnectionError, st1)
         | Response status_code body \<Rightarrow>
             (case body of
                None \<Rightarrow> (Inl JSONDecodeError, st1)
              | Some doc \<Rightarrow> (Inr doc, st1)))"

text \<open>
  \<open>pd.DataFrame.from_dict(rows).iloc[0]\<close>: the columns of the frame are the members
  of all rows, a row without a member holds NaN in that column, and \<open>iloc[0]\<close> is the
  first row as a series indexed by the columns; on a frame without rows it raises
  \<open>IndexError\<close>.
\<close>

definition dataframe_iloc0 :: "(string \<rightharpoonup> string) list \<Rightarrow> error + (string \<rightharpoonup> cell)" where
  "dataframe_iloc0 rows =
     (case rows of
        [] \<Rightarrow> Inl IndexError
      | r # rest \<Rightarrow>
          Inr (\<lambda>k. case r k of
                     Some v \<Rightarrow> Some (Str v)
                   | None \<Rightarrow> if list_ex (\<lambda>r'. r' k \<noteq> None) rest then Some NaN else None))"

definition series_get :: "(string \<rightharpoonup> cell) \<Rightarrow> string \<Rightarrow> error + cell" where
  "series_get df k = (case df k of None \<Rightarrow> Inl (KeyError k) | Some c \<Rightarrow> Inr c)"

definition json_value :: "catalogue_doc \<Rightarrow> error + (string \<rightharpoonup> string) list" where
  "json_value doc = (case doc of NoValue \<Rightarrow> Inl (KeyError ''value'') | Value rows \<Rightarrow> Inr rows)"

text \<open>
  \<open>level\<close> is assigned in the branch \<open>product_type == "L1C"\<close> only, and read right
  after it. \<open>print(id)\<close> prints the builtin function of that name.
\<close>

definition search_products ::
  "env \<Rightarrow> string \<Rightarrow> date \<Rightarrow> pyarg \<Rightarrow> string \<Rightarrow> pyarg \<Rightarrow> pyarg \<Rightarrow> product io" where
  "search_products e tile date search_string product_type satellite query_args =
     (let date1 = strftime_Ymd date
      in if product_type \<noteq> ''L1C'' then io_raise (UnboundLocalError ''level'')
         else
           let level = ''MSIL1C'';
               date2 = level @ ''_'' @ date1;
               url = catalogue_url date2 tile
           in io_bind (requests_get_json e url) (\<lambda>json_response.
              io_bind (io_lift (json_value json_response)) (\<lambda>rows.
              io_bind (io_lift (dataframe_iloc0 rows)) (\<lambda>df.
              io_bind (io_lift (series_get df ''Id'')) (\<lambda>id_ds.
              io_bind (io_lift (series_get df ''Name'')) (\<lambda>name.
              io_bind (io_lift (series_get df ''OriginDate'')) (\<lambda>origin_date.
              io_bind (py_print ''<built-in function id>'') (\<lambda>_.
              io_bind (py_print (py_str name)) (\<lambda>_.
              io_return \<lparr>ids = id_ds, names = name, tiles = tile,
                          origin_dates = origin_date\<rparr>)))))))))"

subsection \<open>download\_products\<close>

definition zipper_url :: "string \<Rightarrow> string" where
  "zipper_url pid = ''https://zipper.dataspace.copernicus.eu/odata/v1/Products('' @ pid @ '')/$value''"

text \<open>\<open>session.get(url, headers=headers, stream=True)\<close>: no status check.\<close>

definition session_get_stream :: "env \<Rightarrow> string \<Rightarrow> (string \<times> string) list \<Rightarrow> stream_body io" where
  "session_get_stream e url headers st =
     (let st1 = emit (SessionGet url headers) st
      in case session_get e (trace st) url headers of
           TransportFailure \<Rightarrow> (Inl ConnectionError, st1)
         | Response status_code body \<Rightarrow> (Inr body, st1))"

text \<open>The loop over \<open>response.iter_content\<close>: a chunk is written when it is not empty.\<close>

fun write_chunks :: "string \<Rightarrow> byte list list \<Rightarrow> state \<Rightarrow> state" where
  "write_chunks p [] st = st"
| "write_chunks p (chunk # rest) st =
     (if chunk \<noteq> [] then write_chunks p rest (snd (file_write p chunk st))
      else write_chunks p rest st)"

definition iter_content_write :: "string \<Rightarrow> stream_body \<Rightarrow> unit io" where
  "iter_content_write p response st =
     (let st1 = write_chunks p (fst response) st
      in if snd response then (Inl ChunkedEncodingError, st1) else (Inr (), st1))"

definition tile_dir :: "string \<Rightarrow> string \<Rightarrow> string" where
  "tile_dir datadir tile = datadir @ ''T'' @ tile"

definition zip_path :: "string \<Rightarrow> string \<Rightarrow> string \<Rightarrow> string" where
  "zip_path datadir tile name = datadir @ ''T'' @ tile @ ''/'' @ name @ ''.zip''"

definition download_products ::
  "env \<Rightarrow> product \<Rightarrow> string \<Rightarrow> bool \<Rightarrow> int \<Rightarrow> bool \<Rightarrow> unit io" where
  "download_products e products datadir unzip max_retries verbose =
     io_bind (get_access_token e Dataspace_username Dataspace_password) (\<lambda>access_token.
       let pid = py_str (ids products);
           name = py_str (names products);
           tile = tiles products;
           origin_date = py_str (origin_dates products);
           url = zipper_url pid;
           headers = [(''Authorization'', ''Bearer '' @ access_token)]
       in io_bind (session_get_stream e url headers) (\<lambda>response.
          io_bind (\<lambda>st. if \<not> path_exists st (tile_dir datadir tile)
                        then os_makedirs (tile_dir datadir tile) st
                        else io_return () st) (\<lambda>_.
          if unzip = False
          then io_bind (open_wb (zip_path datadir tile name)) (\<lambda>_.
               io_bind (py_print (''Downloading '' @ tile @ '' '' @ origin_date @ '' '' @ pid @ ''...'')) (\<lambda>_.
               iter_content_write (zip_path datadir tile name) response))
          else io_return ())))"

subsection \<open>search\_and\_download\_datasets\<close>

text \<open>
  The loop passes \<open>start_date\<close> and \<open>end_date\<close> as the second and third positional
  arguments of \<open>search_products\<close>, whose second and third parameters are \<open>date\<close> and
  \<open>search_string\<close>; \<open>product_type\<close> and \<open>satellite\<close> keep their defaults.
\<close>

fun search_and_download_datasets ::
  "env \<Rightarrow> string list \<Rightarrow> date \<Rightarrow> date \<Rightarrow> string \<Rightarrow> bool \<Rightarrow> int \<Rightarrow> bool \<Rightarrow> pyarg \<Rightarrow> unit io" where
  "search_and_download_datasets e [] start_date end_date datadir unzip max_retries verbose query_args =
     io_return ()"
| "search_and_download_datasets e (tile # tiles') start_date end_date datadir unzip max_retries verbose query_args =
     io_bind (search_products e tile start_date (PyDate end_date) ''L1C'' PyNone query_args) (\<lambda>products.
     io_bind (download_products e products datadir unzip max_retries verbose) (\<lambda>_.
     search_and_download_datasets e tiles' start_date end_date datadir unzip max_retries verbose query_args))"

subsection \<open>Observations on a trace\<close>

fun is_download_request :: "event \<Rightarrow> bool" where
  "is_download_request (SessionGet url headers) = True"
| "is_download_request ev = False"

fun is_search_request :: "event \<Rightarrow> bool" where
  "is_search_request (Get url) = True"
| "is_search_request ev = False"

fun is_file_event :: "event \<Rightarrow> bool" where
  "is_file_event (OpenWb p) = True"
| "is_file_event (Write p chunk) = True"
| "is_file_event ev = False"

text \<open>
  The state in which Download finds itself after its directory step for the directory
  \<open>d\<close>, when the two requests \<open>post\<close> and \<open>get\<close> have been made from the state \<open>st\<close>
  and the step has raised nothing.
\<close>

definition after_makedirs :: "state \<Rightarrow> string \<Rightarrow> event \<Rightarrow> event \<Rightarrow> state" where
  "after_makedirs st d post get =
     (if path_exists st d then emit get (emit post st)
      else emit (Makedirs d)
             ((emit get (emit post st))\<lparr>dirs := dirs st \<union> set (ancestors d) \<union> {d}\<rparr>))"

subsection \<open>Example worlds\<close>

text \<open>
  A disk that holds nothing but the parent directory; a network that is down; and a network in which the identity provider
  grants a token, the catalogue knows one product of tile 16QEJ on 16 January 2024 and
  none for any other query, and the download streams three chunks, the second of them
  empty. Three more identity providers: one that refuses the credentials with status 401
  and a JSON error document, one that answers with status 300, and one behind a gateway
  that answers 502 with a body that is not JSON.
\<close>

definition st0 :: state where
  "st0 = \<lparr>dirs = {''..''}, files = Map.empty, trace = []\<rparr>"

definition offline_env :: env where
  "offline_env =
     \<lparr>requests_post = (\<lambda>_ _ _. TransportFailure),
      requests_get = (\<lambda>_ _. TransportFailure),
      session_get = (\<lambda>_ _ _. TransportFailure)\<rparr>"

definition example_row :: "string \<rightharpoonup> string" where
  "example_row = [''Id'' \<mapsto> ''22018785-4dca-4e29-b40f-926dd0c1aa99'',
                  ''Name'' \<mapsto> ''S2A_MSIL1C_20240116T163631_T16QEJ'',
                  ''OriginDate'' \<mapsto> ''2024-01-16T18:27:11.000Z'']"

definition example_product :: product where
  "example_product =
     \<lparr>ids = Str ''22018785-4dca-4e29-b40f-926dd0c1aa99'',
      names = Str ''S2A_MSIL1C_20240116T163631_T16QEJ'',
      tiles = ''16QEJ'',
      origin_dates = Str ''2024-01-16T18:27:11.000Z''\<rparr>"

definition example_env :: env where
  "example_env =
     \<lparr>requests_post = (\<lambda>_ _ _. Response 200 (Some [''access_token'' \<mapsto> ''tok''])),
      requests_get = (\<lambda>_ url. if url = catalogue_url ''MSIL1C_20240116'' ''16QEJ''
                                then Response 200 (Some (Value [example_row]))
                                else Response 200 (Some (Value []))),
      session_get = (\<lambda>_ _ _. Response 200 ([[1, 2], [], [3]], False))\<rparr>"

definition denied_env :: env where
  "denied_env =
     offline_env\<lparr>requests_post :=
       (\<lambda>_ _ _. Response 401 (Some [''error'' \<mapsto> ''invalid_grant'']))\<rparr>"

definition multiple_choices_env :: env where
  "multiple_choices_env =
     offline_env\<lparr>requests_post :=
       (\<lambda>_ _ _. Response 300 (Some [''access_token'' \<mapsto> ''tok'']))\<rparr>"

definition bad_gateway_env :: env where
  "bad_gateway_env = offline_env\<lparr>requests_post := (\<lambda>_ _ _. Response 502 None)\<rparr>"

section \<open>Properties\<close>

subsection \<open>What each step does to the state\<close>

lemma get_access_token_state:
  "snd (get_access_token e u p st) = emit (Post token_url (token_data u p)) st"
  by (simp add: get_access_token_def Let_def split: http_result.splits option.splits)

lemma get_access_token_result:
  "get_access_token e u p st = (r, st1) \<Longrightarrow> st1 = emit (Post token_url (token_data u p)) st"
  using get_access_token_state[of e u p st] by simp

lemma session_get_stream_state:
  "snd (session_get_stream e url h st) = emit (SessionGet url h) st"
  by (simp add: session_get_stream_def Let_def split: http_result.splits)

lemma requests_get_json_state:
  "snd (requests_get_json e url st) = emit (Get url) st"
  by (simp add: requests_get_json_def Let_def split: http_result.splits option.splits)

lemma write_chunks_dirs: "dirs (write_chunks p cs st) = dirs st"
  by (induction cs arbitrary: st) (simp_all add: file_write_def emit_def)

lemma write_chunks_files:
  "files st p = Some b \<Longrightarrow>
   files (write_chunks p cs st) = (files st)(p \<mapsto> b @ concat (filter (\<lambda>c. c \<noteq> []) cs))"
proof (induction cs arbitrary: st b)
  case Nil
  then show ?case by (simp add: fun_upd_idem)
next
  case (Cons c cs)
  show ?case
  proof (cases "c = []")
    case True
    with Cons show ?thesis by simp
  next
    case False
    have "files (snd (file_write p c st)) p = Some (b @ c)"
      using Cons.prems by (simp add: file_write_def emit_def)
    from Cons.IH[OF this] False Cons.prems show ?thesis
      by (auto simp add: file_write_def emit_def fun_eq_iff)
  qed
qed

lemma write_chunks_requests:
  "filter is_download_request (trace (write_chunks p cs st)) =
   filter is_download_request (trace st)"
  by (induction cs arbitrary: st) (simp_all add: file_write_def emit_def)

lemma zip_path_not_tile_dir: "zip_path datadir tile name \<noteq> tile_dir datadir tile"
  by (simp add: zip_path_def tile_dir_def)

lemma write_chunks_file_events:
  "filter is_file_event (trace (write_chunks p cs st)) =
   filter is_file_event (trace st) @ map (Write p) (filter (\<lambda>c. c \<noteq> []) cs)"
  by (induction cs arbitrary: st) (simp_all add: file_write_def emit_def)

lemma write_chunks_search_requests:
  "filter is_search_request (trace (write_chunks p cs st)) =
   filter is_search_request (trace st)"
  by (induction cs arbitrary: st) (simp_all add: file_write_def emit_def)

subsection \<open>Paths\<close>

lemma ancestors_from_length:
  "q \<in> set (ancestors_from seen xs) \<Longrightarrow> length q < length seen + length xs"
proof (induction xs arbitrary: seen)
  case Nil
  then show ?case by simp
next
  case (Cons c rest)
  from Cons.prems have "q = seen \<or> q \<in> set (ancestors_from (seen @ [c]) rest)"
    by (auto split: if_splits)
  then show ?case
  proof
    assume "q = seen"
    then show ?thesis by simp
  next
    assume "q \<in> set (ancestors_from (seen @ [c]) rest)"
    from Cons.IH[OF this] show ?thesis by simp
  qed
qed

lemma ancestors_shorter: "q \<in> set (ancestors p) \<Longrightarrow> length q < length p"
  using ancestors_from_length[of q "[]" p] by (simp add: ancestors_def)

lemma dirname_child:
  assumes "CHR ''/'' \<notin> set n" and "d \<noteq> []" and "last d \<noteq> CHR ''/''"
  shows "dirname (d @ ''/'' @ n) = d"
proof -
  have a: "dropWhile (\<lambda>c. c \<noteq> CHR ''/'') (rev (d @ ''/'' @ n)) = CHR ''/'' # rev d"
    using assms(1) by (auto simp: dropWhile_append3)
  have b: "\<not> list_all (\<lambda>c. c = CHR ''/'') (d @ ''/'')"
    using assms(2,3) by (cases d rule: rev_cases) auto
  have c: "dropWhile (\<lambda>c. c = CHR ''/'') (rev (d @ ''/'')) = rev d"
    using assms(2,3) by (cases d rule: rev_cases) auto
  show ?thesis
    unfolding dirname_def Let_def a using b c by simp
qed

lemma tile_dir_last:
  "CHR ''/'' \<notin> set tile \<Longrightarrow> last (tile_dir datadir tile) \<noteq> CHR ''/''"
  by (cases tile rule: rev_cases) (auto simp: tile_dir_def)

lemma dirname_zip_path:
  assumes "CHR ''/'' \<notin> set tile" and "CHR ''/'' \<notin> set name"
  shows "dirname (zip_path datadir tile name) = tile_dir datadir tile"
proof -
  have z: "zip_path datadir tile name = tile_dir datadir tile @ ''/'' @ (name @ ''.zip'')"
    by (simp add: zip_path_def tile_dir_def)
  have n: "CHR ''/'' \<notin> set (name @ ''.zip'')" using assms(2) by simp
  have d: "tile_dir datadir tile \<noteq> []" by (simp add: tile_dir_def)
  show ?thesis unfolding z using dirname_child[OF n d tile_dir_last[OF assms(1)]] .
qed

lemma zip_path_not_ancestor:
  "zip_path datadir tile name \<notin> set (ancestors (tile_dir datadir tile))"
proof
  assume "zip_path datadir tile name \<in> set (ancestors (tile_dir datadir tile))"
  from ancestors_shorter[OF this] show False by (simp add: zip_path_def tile_dir_def)
qed

text \<open>
  The directory step of Download, when no regular file stands above the tile directory:
  it raises nothing, touches no file, and leaves the tile directory in place unless a
  regular file has its path.
\<close>

lemma makedirs_step:
  assumes "\<forall>q \<in> set (ancestors d). files st q = None" and "d \<noteq> []"
  shows "(if \<not> path_exists st d then os_makedirs d st else io_return () st) =
           (Inr (), if path_exists st d then st
                    else emit (Makedirs d) (st\<lparr>dirs := dirs st \<union> set (ancestors d) \<union> {d}\<rparr>))"
  using assms by (auto simp: os_makedirs_def io_return_def list_ex_iff)

subsection \<open>Requests to the catalogue\<close>

lemma io_bind_search_requests:
  assumes "\<And>st. filter is_search_request (trace (snd (m st))) =
                  filter is_search_request (trace st)"
    and "\<And>x st. filter is_search_request (trace (snd (f x st))) =
                    filter is_search_request (trace st)"
  shows "filter is_search_request (trace (snd (io_bind m f st))) =
         filter is_search_request (trace st)"
proof (cases "m st")
  case (Pair r st1)
  have p1: "filter is_search_request (trace st1) = filter is_search_request (trace st)"
    using assms(1)[of st] Pair by simp
  show ?thesis
  proof (cases r)
    case (Inl err)
    with Pair p1 show ?thesis by (simp add: io_bind_def)
  next
    case (Inr x)
    with Pair have "io_bind m f st = f x st1" by (simp add: io_bind_def)
    with p1 assms(2)[of x st1] show ?thesis by simp
  qed
qed

lemma download_products_search_requests:
  "filter is_search_request (trace (snd (download_products e p d uz mr vb st))) =
   filter is_search_request (trace st)"
proof -
  have a: "\<And>s. filter is_search_request
                   (trace (snd (get_access_token e Dataspace_username Dataspace_password s))) =
                 filter is_search_request (trace s)"
    by (simp add: get_access_token_state emit_def)
  have b: "\<And>url h s. filter is_search_request (trace (snd (session_get_stream e url h s))) =
                 filter is_search_request (trace s)"
    by (simp add: session_get_stream_state emit_def)
  have c: "\<And>q s. filter is_search_request
                   (trace (snd (if \<not> path_exists s q then os_makedirs q s else io_return () s))) =
                 filter is_search_request (trace s)"
    by (simp add: os_makedirs_def io_return_def emit_def)
  have d: "\<And>q s. filter is_search_request (trace (snd (open_wb q s))) =
                 filter is_search_request (trace s)"
    by (simp add: open_wb_def emit_def)
  have f: "\<And>msg s. filter is_search_request (trace (snd (py_print msg s))) =
                 filter is_search_request (trace s)"
    by (simp add: py_print_def emit_def)
  have g: "\<And>q r s. filter is_search_request (trace (snd (iter_content_write q r s))) =
                 filter is_search_request (trace s)"
    by (simp add: iter_content_write_def Let_def write_chunks_search_requests)
  have h: "\<And>s. filter is_search_request (trace (snd (io_return () s))) =
                 filter is_search_request (trace s)"
    by (simp add: io_return_def)
  show ?thesis
    unfolding download_products_def Let_def
    by (intro io_bind_search_requests a b c)
       (auto intro!: io_bind_search_requests d f g h)
qed

text \<open>With the default product type, Search asks the catalogue once, for its own URL.\<close>

lemma search_products_search_requests:
  "filter is_search_request (trace (snd (search_products e tile date ss ''L1C'' sat qa st))) =
   filter is_search_request (trace st) @
     [Get (catalogue_url (''MSIL1C_'' @ strftime_Ymd date) tile)]"
proof -
  let ?url = "catalogue_url (''MSIL1C_'' @ strftime_Ymd date) tile"
  let ?k = "(\<lambda>json_response.
              io_bind (io_lift (json_value json_response)) (\<lambda>rows.
              io_bind (io_lift (dataframe_iloc0 rows)) (\<lambda>df.
              io_bind (io_lift (series_get df ''Id'')) (\<lambda>id_ds.
              io_bind (io_lift (series_get df ''Name'')) (\<lambda>name.
              io_bind (io_lift (series_get df ''OriginDate'')) (\<lambda>origin_date.
              io_bind (py_print ''<built-in function id>'') (\<lambda>_.
              io_bind (py_print (py_str name)) (\<lambda>_.
              io_return \<lparr>ids = id_ds, names = name, tiles = tile,
                          origin_dates = origin_date\<rparr>))))))))"
  have l: "\<And>r s. filter is_search_request (trace (snd (io_lift r s))) =
                 filter is_search_request (trace s)"
    by (simp add: io_lift_def)
  have f: "\<And>msg s. filter is_search_request (trace (snd (py_print msg s))) =
                 filter is_search_request (trace s)"
    by (simp add: py_print_def emit_def)
  have h: "\<And>x s. filter is_search_request (trace (snd (io_return x s))) =
                 filter is_search_request (trace s)"
    by (simp add: io_return_def)
  have k: "\<And>x s. filter is_search_request (trace (snd (?k x s))) =
                 filter is_search_request (trace s)"
    by (intro io_bind_search_requests l f h)
  have eq: "search_products e tile date ss ''L1C'' sat qa st =
      io_bind (requests_get_json e ?url) ?k st"
    by (simp add: search_products_def)
  obtain r st1 where m: "requests_get_json e ?url st = (r, st1)"
    by (cases "requests_get_json e ?url st")
  have st1: "st1 = emit (Get ?url) st"
    using requests_get_json_state[of e ?url st] m by simp
  show ?thesis
  proof (cases r)
    case (Inl err)
    with m eq st1 show ?thesis by (simp add: io_bind_def emit_def)
  next
    case (Inr x)
    with m eq have "search_products e tile date ss ''L1C'' sat qa st = ?k x st1"
      by (simp add: io_bind_def)
    with k[of x st1] st1 show ?thesis by (simp add: emit_def)
  qed
qed

subsection \<open>Sequencing\<close>

lemma io_bind_assoc: "io_bind (io_bind m f) g = io_bind m (\<lambda>x. io_bind (f x) g)"
  by (rule ext) (simp add: io_bind_def split: prod.splits sum.splits)

lemma io_bind_Inr: "m s = (Inr x, s') \<Longrightarrow> io_bind m f s = f x s'"
  by (simp add: io_bind_def)

lemma io_bind_return: "io_bind (io_return x) f = f x"
  by (rule ext) (simp add: io_bind_def io_return_def)

lemma search_and_download_datasets_append:
  "search_and_download_datasets e (pre @ ts) s en d uz mr vb qa =
     io_bind (search_and_download_datasets e pre s en d uz mr vb qa)
       (\<lambda>_. search_and_download_datasets e ts s en d uz mr vb qa)"
  by (induction pre) (simp_all add: io_bind_return io_bind_assoc)

text \<open>Once the token is there and the GET has returned, what is left of Download.\<close>

lemma download_products_unfold:
  assumes tok: "get_access_token e Dataspace_username Dataspace_password st = (Inr tok, st1)"
    and resp: "session_get e (trace st1) (zipper_url (py_str (ids p)))
                 [(''Authorization'', ''Bearer '' @ tok)] = Response sc body"
  shows "download_products e p datadir unzip mr vb st =
     io_bind (\<lambda>s. if \<not> path_exists s (tile_dir datadir (tiles p))
                        then os_makedirs (tile_dir datadir (tiles p)) s
                        else io_return () s) (\<lambda>_.
          if unzip = False
          then io_bind (open_wb (zip_path datadir (tiles p) (py_str (names p)))) (\<lambda>_.
               io_bind (py_print (''Downloading '' @ tiles p @ '' '' @ py_str (origin_dates p)
                                    @ '' '' @ py_str (ids p) @ ''...'')) (\<lambda>_.
               iter_content_write (zip_path datadir (tiles p) (py_str (names p))) body))
          else io_return ())
       (emit (SessionGet (zipper_url (py_str (ids p))) [(''Authorization'', ''Bearer '' @ tok)]) st1)"
  using tok resp
  by (simp add: download_products_def
      io_bind_def[of "get_access_token e Dataspace_username Dataspace_password"]
      io_bind_def[of "session_get_stream e _ _"] session_get_stream_def Let_def)

lemma emit_fields [simp]:
  "dirs (emit ev s) = dirs s" "files (emit ev s) = files s" "trace (emit ev s) = trace s @ [ev]"
  "path_exists (emit ev s) q = path_exists s q"
  by (simp_all add: emit_def path_exists_def)

text \<open>
  When the token is there, the GET has returned and no regular file stands above the
  tile directory, the directory step raises nothing, and what is left of Download runs
  in the state \<open>after_makedirs\<close>.
\<close>

lemma after_makedirs_fields:
  "files (after_makedirs st d post get) = files st"
  "dirs (after_makedirs st d post get) =
     (if path_exists st d then dirs st else dirs st \<union> set (ancestors d) \<union> {d})"
  "trace (after_makedirs st d post get) =
     trace st @ [post, get] @ (if path_exists st d then [] else [Makedirs d])"
  by (simp_all add: after_makedirs_def)

lemma download_products_after_makedirs:
  assumes tok: "get_access_token e Dataspace_username Dataspace_password st = (Inr tok, st1)"
    and resp: "session_get e (trace st1) (zipper_url (py_str (ids p)))
                 [(''Authorization'', ''Bearer '' @ tok)] = Response sc body"
    and clear: "\<forall>q \<in> set (ancestors (tile_dir datadir (tiles p))). files st q = None"
  shows "download_products e p datadir unzip mr vb st =
     (if unzip = False
      then io_bind (open_wb (zip_path datadir (tiles p) (py_str (names p)))) (\<lambda>_.
           io_bind (py_print (''Downloading '' @ tiles p @ '' '' @ py_str (origin_dates p)
                                @ '' '' @ py_str (ids p) @ ''...'')) (\<lambda>_.
           iter_content_write (zip_path datadir (tiles p) (py_str (names p))) body))
      else io_return ())
       (after_makedirs st (tile_dir datadir (tiles p))
          (Post token_url (token_data Dataspace_username Dataspace_password))
          (SessionGet (zipper_url (py_str (ids p))) [(''Authorization'', ''Bearer '' @ tok)]))"
proof -
  define post where "post = Post token_url (token_data Dataspace_username Dataspace_password)"
  define get where
    "get = SessionGet (zipper_url (py_str (ids p))) [(''Authorization'', ''Bearer '' @ tok)]"
  define d where "d = tile_dir datadir (tiles p)"
  have st1: "st1 = emit post st"
    unfolding post_def using get_access_token_result[OF tok] .
  have d: "d \<noteq> []" by (simp add: d_def tile_dir_def)
  have clear2: "\<forall>q \<in> set (ancestors d). files (emit get st1) q = None"
    using clear by (simp add: d_def st1)
  have step: "(if \<not> path_exists (emit get st1) d then os_makedirs d (emit get st1)
               else io_return () (emit get st1)) = (Inr (), after_makedirs st d post get)"
    unfolding makedirs_step[OF clear2 d] by (simp add: after_makedirs_def st1)
  show ?thesis
    unfolding download_products_unfold[OF tok resp] post_def[symmetric] get_def[symmetric]
      d_def[symmetric]
    by (subst io_bind_Inr[where m = "\<lambda>s. if \<not> path_exists s d then os_makedirs d s
                                           else io_return () s"
          and s = "emit get st1", OF step]) (rule refl)
qed

subsection \<open>Download requests\<close>

lemma io_bind_download_requests:
  assumes "\<And>st. filter is_download_request (trace (snd (m st))) =
                  filter is_download_request (trace st)"
    and "\<And>x st. filter is_download_request (trace (snd (f x st))) =
                    filter is_download_request (trace st)"
  shows "filter is_download_request (trace (snd (io_bind m f st))) =
         filter is_download_request (trace st)"
proof (cases "m st")
  case (Pair r st1)
  have p1: "filter is_download_request (trace st1) = filter is_download_request (trace st)"
    using assms(1)[of st] Pair by simp
  show ?thesis
  proof (cases r)
    case (Inl err)
    with Pair p1 show ?thesis by (simp add: io_bind_def)
  next
    case (Inr x)
    with Pair have "io_bind m f st = f x st1" by (simp add: io_bind_def)
    with p1 assms(2)[of x st1] show ?thesis by simp
  qed
qed

text \<open>One call of Download asks the download endpoint at most once.\<close>

lemma download_products_download_requests:
  "length (filter is_download_request (trace (snd (download_products e p d uz mr vb st)))) \<le>
   Suc (length (filter is_download_request (trace st)))"
proof -
  define rest where "rest = (\<lambda>response.
          io_bind (\<lambda>st. if \<not> path_exists st (tile_dir d (tiles p))
                        then os_makedirs (tile_dir d (tiles p)) st
                        else io_return () st) (\<lambda>_.
          if uz = False
          then io_bind (open_wb (zip_path d (tiles p) (py_str (names p)))) (\<lambda>_.
               io_bind (py_print (''Downloading '' @ tiles p @ '' '' @ py_str (origin_dates p)
                                    @ '' '' @ py_str (ids p) @ ''...'')) (\<lambda>_.
               iter_content_write (zip_path d (tiles p) (py_str (names p))) response))
          else io_return ()))"
  define get where "get = (\<lambda>access_token.
      session_get_stream e (zipper_url (py_str (ids p)))
        [(''Authorization'', ''Bearer '' @ access_token)])"
  have unf: "download_products e p d uz mr vb =
      io_bind (get_access_token e Dataspace_username Dataspace_password)
        (\<lambda>access_token. io_bind (get access_token) rest)"
    unfolding download_products_def Let_def rest_def get_def by (rule refl)
  have c: "\<And>q s. filter is_download_request
                   (trace (snd (if \<not> path_exists s q then os_makedirs q s else io_return () s))) =
                 filter is_download_request (trace s)"
    by (simp add: os_makedirs_def io_return_def emit_def)
  have o: "\<And>q s. filter is_download_request (trace (snd (open_wb q s))) =
                 filter is_download_request (trace s)"
    by (simp add: open_wb_def emit_def)
  have f: "\<And>msg s. filter is_download_request (trace (snd (py_print msg s))) =
                 filter is_download_request (trace s)"
    by (simp add: py_print_def emit_def)
  have g: "\<And>q r s. filter is_download_request (trace (snd (iter_content_write q r s))) =
                 filter is_download_request (trace s)"
    by (simp add: iter_content_write_def Let_def write_chunks_requests)
  have h: "\<And>s. filter is_download_request (trace (snd (io_return () s))) =
                 filter is_download_request (trace s)"
    by (simp add: io_return_def)
  have keep: "\<And>response s. filter is_download_request (trace (snd (rest response s))) =
                 filter is_download_request (trace s)"
    unfolding rest_def
    by (intro io_bind_download_requests c)
       (auto intro!: io_bind_download_requests o f g h)
  obtain r st1 where t: "get_access_token e Dataspace_username Dataspace_password st = (r, st1)"
    by (cases "get_access_token e Dataspace_username Dataspace_password st")
  have n1: "filter is_download_request (trace st1) = filter is_download_request (trace st)"
    using get_access_token_result[OF t] by (simp add: emit_def)
  show ?thesis
  proof (cases r)
    case (Inl err)
    with t have "snd (download_products e p d uz mr vb st) = st1"
      by (simp add: unf io_bind_def)
    with n1 show ?thesis by simp
  next
    case (Inr tok)
    obtain r2 st2 where s: "get tok st1 = (r2, st2)"
      by (cases "get tok st1")
    have "st2 = emit (SessionGet (zipper_url (py_str (ids p)))
                        [(''Authorization'', ''Bearer '' @ tok)]) st1"
      using session_get_stream_state[of e "zipper_url (py_str (ids p))"
          "[(''Authorization'', ''Bearer '' @ tok)]" st1] s
      unfolding get_def by simp
    then have n2: "length (filter is_download_request (trace st2)) =
                     Suc (length (filter is_download_request (trace st)))"
      using n1 by (simp add: emit_def)
    show ?thesis
    proof (cases r2)
      case (Inl err)
      with t \<open>r = Inr tok\<close> s have "snd (download_products e p d uz mr vb st) = st2"
        by (simp add: unf io_bind_def)
      with n2 show ?thesis by simp
    next
      case (Inr response)
      with t \<open>r = Inr tok\<close> s have "download_products e p d uz mr vb st = rest response st2"
        by (simp add: unf io_bind_def)
      with keep[of response st2] n2 show ?thesis by simp
    qed
  qed
qed

section \<open>The claims\<close>

subsection \<open>Search\<close>

text \<open>
  C10. Called with a product type other than \<open>"L1C"\<close>, Search fails with the
  unbound-variable error on \<open>level\<close>, and it fails before any request: the state it
  leaves, trace included, is the state it was given.
\<close>

theorem search_products_unbound_level:
  "product_type \<noteq> ''L1C'' \<Longrightarrow>
   search_products e tile date search_string product_type satellite query_args st =
     (Inl (UnboundLocalError ''level''), st)"
  by (simp add: search_products_def io_raise_def)

theorem search_products_unbound_level_witness:
  "search_products example_env ''16QEJ'' \<lparr>year = 2024, month = 1, day = 16\<rparr> PyNone ''L2A''
     PyNone PyNone st0 = (Inl (UnboundLocalError ''level''), st0)"
  using search_products_unbound_level[of "''L2A''" example_env "''16QEJ''"
      "\<lparr>year = 2024, month = 1, day = 16\<rparr>" PyNone PyNone PyNone st0]
  by simp

text \<open>
  C3. When the catalogue answers the query for a tile and a date with an empty array of
  matches, Search raises \<open>IndexError\<close> (the \<open>iloc[0]\<close> of an empty frame) right after
  its GET; it returns no descriptor.
\<close>

theorem search_products_no_match_IndexError:
  assumes "requests_get e (trace st) (catalogue_url (''MSIL1C_'' @ strftime_Ymd date) tile) =
             Response status_code (Some (Value []))"
  shows "search_products e tile date search_string ''L1C'' satellite query_args st =
     (Inl IndexError, emit (Get (catalogue_url (''MSIL1C_'' @ strftime_Ymd date) tile)) st)"
  using assms
  by (simp add: search_products_def io_bind_def requests_get_json_def io_lift_def
      json_value_def dataframe_iloc0_def)

theorem search_products_no_match_IndexError_witness:
  "search_products example_env ''16QDH'' \<lparr>year = 2024, month = 1, day = 16\<rparr> PyNone ''L1C''
     PyNone PyNone st0 =
   (Inl IndexError, emit (Get (catalogue_url ''MSIL1C_20240116'' ''16QDH'')) st0)"
proof -
  have h: "requests_get example_env (trace st0)
             (catalogue_url (''MSIL1C_'' @ strftime_Ymd \<lparr>year = 2024, month = 1, day = 16\<rparr>) ''16QDH'') =
           Response 200 (Some (Value []))"
    by (simp add: example_env_def catalogue_url_def strftime_Ymd_def digit_def)
  from search_products_no_match_IndexError[OF h, of PyNone PyNone PyNone]
  show ?thesis by (simp add: strftime_Ymd_def digit_def)
qed

text \<open>
  C4. When the array of matches is not empty, Search takes its first element whatever
  follows it: the descriptor holds the input tile, and the \<open>Id\<close>, \<open>Name\<close> and
  \<open>OriginDate\<close> of that first match, unchanged. (A match of the catalogue has these three
  members; the theorem asks it of the first one.)
\<close>

theorem search_products_first_match:
  assumes "requests_get e (trace st) (catalogue_url (''MSIL1C_'' @ strftime_Ymd date) tile) =
             Response status_code (Some (Value (first # others)))"
    and "first ''Id'' = Some i"
    and "first ''Name'' = Some n"
    and "first ''OriginDate'' = Some d"
  shows "fst (search_products e tile date search_string ''L1C'' satellite query_args st) =
     Inr \<lparr>ids = Str i, names = Str n, tiles = tile, origin_dates = Str d\<rparr>"
  using assms
  by (simp add: search_products_def io_bind_def requests_get_json_def io_lift_def
      json_value_def dataframe_iloc0_def series_get_def py_print_def io_return_def)

theorem search_products_first_match_witness:
  "fst (search_products example_env ''16QEJ'' \<lparr>year = 2024, month = 1, day = 16\<rparr> PyNone ''L1C''
     PyNone PyNone st0) = Inr example_product"
proof -
  have h: "requests_get example_env (trace st0)
             (catalogue_url (''MSIL1C_'' @ strftime_Ymd \<lparr>year = 2024, month = 1, day = 16\<rparr>) ''16QEJ'') =
           Response 200 (Some (Value (example_row # [])))"
    by (simp add: example_env_def strftime_Ymd_def digit_def)
  have i: "example_row ''Id'' = Some ''22018785-4dca-4e29-b40f-926dd0c1aa99''"
    by (simp add: example_row_def)
  have n: "example_row ''Name'' = Some ''S2A_MSIL1C_20240116T163631_T16QEJ''"
    by (simp add: example_row_def)
  have d: "example_row ''OriginDate'' = Some ''2024-01-16T18:27:11.000Z''"
    by (simp add: example_row_def)
  from search_products_first_match[OF h i n d, of PyNone PyNone PyNone]
  show ?thesis by (simp add: example_product_def)
qed

subsection \<open>The Authenticator\<close>

text \<open>
  C2, as amended. When the token request fails in transport or comes back with a status
  from 400 to 599, the Authenticator raises an error and returns no token; when the status
  is from 400 to 599 and the body is JSON, the error is the one whose message reports that
  JSON payload.
\<close>

theorem get_access_token_failure:
  assumes "requests_post e (trace st) token_url (token_data username password) = r"
    and "r = TransportFailure \<or>
         (\<exists>body. r = Response status_code body \<and> 400 \<le> status_code \<and> status_code < 600)"
  shows "(\<exists>err. fst (get_access_token e username password st) = Inl err) \<and>
         (\<forall>payload. r = Response status_code (Some payload) \<longrightarrow>
            fst (get_access_token e username password st) =
              Inl (AccessTokenCreationFailed payload))"
  using assms
  by (auto simp: get_access_token_def Let_def raise_for_status_def split: option.splits)

theorem get_access_token_failure_witness:
  "fst (get_access_token denied_env Dataspace_username Dataspace_password st0) =
     Inl (AccessTokenCreationFailed [''error'' \<mapsto> ''invalid_grant''])"
proof -
  have h1: "requests_post denied_env (trace st0) token_url (token_data Dataspace_username Dataspace_password) =
              Response 401 (Some [''error'' \<mapsto> ''invalid_grant''])"
    by (simp add: denied_env_def offline_env_def)
  have h2: "Response 401 (Some [''error'' \<mapsto> ''invalid_grant'']) =
              (TransportFailure :: token_body http_result) \<or>
            (\<exists>body. Response 401 (Some [''error'' \<mapsto> ''invalid_grant'']) =
                      Response (401::nat) (body :: token_body) \<and>
                    (400::nat) \<le> 401 \<and> (401::nat) < 600)"
    by simp
  from get_access_token_failure[OF h1 h2] show ?thesis by simp
qed

text \<open>
  C2 as stated fails in three ways. On a transport failure the handler reads \<open>r\<close>, which
  was never assigned, and the error is the unbound-variable error: it reports no server
  payload. A status 300 is not a 2xx status, yet \<open>raise_for_status\<close> accepts it and the
  token of the body is returned. A status 502 with a body that is not JSON makes
  \<open>r.json()\<close> raise inside the handler.
\<close>

theorem get_access_token_failure_counterexample:
  "fst (get_access_token offline_env Dataspace_username Dataspace_password st0) = Inl (UnboundLocalError ''r'') \<and>
   fst (get_access_token multiple_choices_env Dataspace_username Dataspace_password st0) = Inr ''tok'' \<and>
   fst (get_access_token bad_gateway_env Dataspace_username Dataspace_password st0) = Inl JSONDecodeError"
  by (simp add: get_access_token_def offline_env_def multiple_choices_env_def
      bad_gateway_env_def raise_for_status_def)

subsection \<open>Download\<close>

text \<open>
  C5. With \<open>unzip=True\<close> Download writes no file: whatever the servers answer and
  whatever is on the disk, the files are afterwards what they were, and the call neither
  opens a file nor writes to one.
\<close>

theorem download_products_unzip_writes_nothing:
  "files (snd (download_products e p datadir True max_retries verbose st)) = files st \<and>
   filter is_file_event (trace (snd (download_products e p datadir True max_retries verbose st))) =
     filter is_file_event (trace st)"
  by (simp add: download_products_def io_bind_def get_access_token_def session_get_stream_def
      os_makedirs_def io_return_def emit_def Let_def
      split: http_result.splits option.splits prod.splits sum.splits)

theorem download_products_unzip_writes_nothing_witness:
  "files (snd (download_products example_env example_product ''../'' True 5 True st0)) = Map.empty"
  using download_products_unzip_writes_nothing[of example_env example_product "''../''" 5 True st0]
  by (simp add: st0_def)

text \<open>
  C6. With \<open>unzip=False\<close>, once the Authenticator has returned a token and the download
  request a response, Download writes one file and no other: the file at
  \<open><datadir>T<tile>/<name>.zip\<close>, whose content is the non-empty chunks of the stream in
  their order, so that its length is the sum of their lengths; it opens that file once
  and writes each non-empty chunk to it, and no empty one. The file system has to allow
  it: the tile and the name are names (no slash in them), no regular file stands at the
  tile directory or above it, and the path of the file is not a directory.
\<close>

theorem download_products_writes_zip:
  assumes tok: "get_access_token e Dataspace_username Dataspace_password st = (Inr tok, st1)"
    and resp: "session_get e (trace st1) (zipper_url (py_str (ids p)))
                 [(''Authorization'', ''Bearer '' @ tok)] = Response status_code (chunks, broken)"
    and tile: "CHR ''/'' \<notin> set (tiles p)"
    and name: "CHR ''/'' \<notin> set (py_str (names p))"
    and clear: "\<forall>q \<in> set (tile_dir datadir (tiles p) # ancestors (tile_dir datadir (tiles p))).
                  files st q = None"
    and nodir: "zip_path datadir (tiles p) (py_str (names p)) \<notin> dirs st"
  shows "files (snd (download_products e p datadir False max_retries verbose st)) =
           (files st)(zip_path datadir (tiles p) (py_str (names p)) \<mapsto>
              concat (filter (\<lambda>chunk. chunk \<noteq> []) chunks)) \<and>
         map_option length
           (files (snd (download_products e p datadir False max_retries verbose st))
              (zip_path datadir (tiles p) (py_str (names p)))) =
           Some (sum_list (map length (filter (\<lambda>chunk. chunk \<noteq> []) chunks))) \<and>
         filter is_file_event
           (trace (snd (download_products e p datadir False max_retries verbose st))) =
           filter is_file_event (trace st) @
             OpenWb (zip_path datadir (tiles p) (py_str (names p))) #
             map (Write (zip_path datadir (tiles p) (py_str (names p))))
               (filter (\<lambda>chunk. chunk \<noteq> []) chunks)"
proof -
  define path where "path = zip_path datadir (tiles p) (py_str (names p))"
  define dir where "dir = tile_dir datadir (tiles p)"
  define msg where "msg = ''Downloading '' @ tiles p @ '' '' @ py_str (origin_dates p)
                            @ '' '' @ py_str (ids p) @ ''...''"
  define s3 where "s3 = after_makedirs st dir
          (Post token_url (token_data Dataspace_username Dataspace_password))
          (SessionGet (zipper_url (py_str (ids p))) [(''Authorization'', ''Bearer '' @ tok)])"
  define s4 where "s4 = emit (OpenWb path) (s3\<lparr>files := (files s3)(path \<mapsto> [])\<rparr>)"
  define s5 where "s5 = emit (Print msg) s4"
  define s6 where "s6 = write_chunks path chunks s5"
  have clear': "\<forall>q \<in> set (ancestors (tile_dir datadir (tiles p))). files st q = None"
    using clear by simp
  have nofile: "files st dir = None"
    using clear by (simp add: dir_def)
  have run: "download_products e p datadir False max_retries verbose st =
      io_bind (open_wb path) (\<lambda>_. io_bind (py_print msg) (\<lambda>_.
        iter_content_write path (chunks, broken))) s3"
    unfolding download_products_after_makedirs[OF tok resp clear'] path_def msg_def s3_def dir_def
    by simp
  have files3: "files s3 = files st"
    by (simp add: s3_def after_makedirs_fields)
  have dir3: "dir \<in> dirs s3"
    using nofile by (auto simp: s3_def after_makedirs_fields path_exists_def)
  have path3: "path \<notin> dirs s3"
    using nodir zip_path_not_tile_dir[of datadir "tiles p" "py_str (names p)"]
      zip_path_not_ancestor[of datadir "tiles p" "py_str (names p)"]
    by (simp add: s3_def after_makedirs_fields path_def dir_def)
  have dn: "dirname path = dir"
    unfolding path_def dir_def using dirname_zip_path[OF tile name] .
  have opened: "open_wb path s3 = (Inr (), s4)"
    using path3 dir3 nofile by (simp add: open_wb_def dn files3 s4_def)
  have R: "snd (download_products e p datadir False max_retries verbose st) = s6"
    unfolding run
    by (simp add: io_bind_def opened py_print_def iter_content_write_def Let_def s5_def s6_def)
  have f5: "files s5 path = Some []"
    by (simp add: s5_def s4_def)
  have fs5: "files s5 = (files st)(path \<mapsto> [])"
    by (simp add: s5_def s4_def files3)
  have files6: "files s6 = (files st)(path \<mapsto> concat (filter (\<lambda>chunk. chunk \<noteq> []) chunks))"
    unfolding s6_def using write_chunks_files[OF f5, of chunks] by (simp add: fs5)
  have ev3: "filter is_file_event (trace s3) = filter is_file_event (trace st)"
    by (simp add: s3_def after_makedirs_fields)
  have ev5: "filter is_file_event (trace s5) = filter is_file_event (trace st) @ [OpenWb path]"
    using ev3 by (simp add: s5_def s4_def)
  have ev6: "filter is_file_event (trace s6) =
      filter is_file_event (trace st) @ OpenWb path #
        map (Write path) (filter (\<lambda>chunk. chunk \<noteq> []) chunks)"
    unfolding s6_def using write_chunks_file_events[of path chunks s5] ev5 by simp
  show ?thesis
    unfolding R path_def[symmetric] using files6 ev6 by (simp add: length_concat)
qed

theorem download_products_writes_zip_witness:
  "files (snd (download_products example_env example_product ''../'' False 5 True st0)) =
     [''../T16QEJ/S2A_MSIL1C_20240116T163631_T16QEJ.zip'' \<mapsto> [1, 2, 3]] \<and>
   map_option length
     (files (snd (download_products example_env example_product ''../'' False 5 True st0))
        ''../T16QEJ/S2A_MSIL1C_20240116T163631_T16QEJ.zip'') = Some 3 \<and>
   filter is_file_event
     (trace (snd (download_products example_env example_product ''../'' False 5 True st0))) =
     [OpenWb ''../T16QEJ/S2A_MSIL1C_20240116T163631_T16QEJ.zip'',
      Write ''../T16QEJ/S2A_MSIL1C_20240116T163631_T16QEJ.zip'' [1, 2],
      Write ''../T16QEJ/S2A_MSIL1C_20240116T163631_T16QEJ.zip'' [3]]"
proof -
  let ?st1 = "emit (Post token_url (token_data Dataspace_username Dataspace_password)) st0"
  have h1: "get_access_token example_env Dataspace_username Dataspace_password st0 =
              (Inr ''tok'', ?st1)"
    by (simp add: get_access_token_def example_env_def raise_for_status_def)
  have h2: "session_get example_env (trace ?st1) (zipper_url (py_str (ids example_product)))
              [(''Authorization'', ''Bearer '' @ ''tok'')] =
            Response 200 ([[1, 2], [], [3]], False)"
    by (simp add: example_env_def)
  have h3: "CHR ''/'' \<notin> set (tiles example_product)"
    by (simp add: example_product_def)
  have h4: "CHR ''/'' \<notin> set (py_str (names example_product))"
    by (simp add: example_product_def)
  have h5: "\<forall>q \<in> set (tile_dir ''../'' (tiles example_product) #
                        ancestors (tile_dir ''../'' (tiles example_product))).
              files st0 q = None"
    by (simp add: st0_def)
  have h6: "zip_path ''../'' (tiles example_product) (py_str (names example_product))
              \<notin> dirs st0"
    by (simp add: st0_def example_product_def zip_path_def)
  from download_products_writes_zip[OF h1 h2 h3 h4 h5 h6, of 5 True] show ?thesis
    by (simp add: example_product_def st0_def zip_path_def)
qed

text \<open>
  C7. Once the Authenticator has returned a token and the download request a response,
  Download reaches the directory step. When no regular file stands above the tile
  directory, the step creates \<open><datadir>T<tile>\<close> exactly when nothing is at that path;
  when something is, it creates no directory at all; and it raises nothing in either
  case: the error of creating what exists never is the result, and a call with
  \<open>unzip=True\<close>, which ends after the step, returns normally.
\<close>

theorem download_products_makedirs:
  assumes tok: "get_access_token e Dataspace_username Dataspace_password st = (Inr tok, st1)"
    and resp: "session_get e (trace st1) (zipper_url (py_str (ids p)))
                 [(''Authorization'', ''Bearer '' @ tok)] = Response status_code body"
    and clear: "\<forall>q \<in> set (ancestors (tile_dir datadir (tiles p))). files st q = None"
  shows "((tile_dir datadir (tiles p)
              \<in> dirs (snd (download_products e p datadir unzip max_retries verbose st)) \<and>
           tile_dir datadir (tiles p) \<notin> dirs st) =
          (\<not> path_exists st (tile_dir datadir (tiles p)))) \<and>
         (path_exists st (tile_dir datadir (tiles p)) \<longrightarrow>
            dirs (snd (download_products e p datadir unzip max_retries verbose st)) = dirs st) \<and>
         fst (download_products e p datadir unzip max_retries verbose st) \<noteq>
           Inl (FileExistsError (tile_dir datadir (tiles p))) \<and>
         fst (download_products e p datadir True max_retries verbose st) = Inr ()"
proof -
  define path where "path = zip_path datadir (tiles p) (py_str (names p))"
  define dir where "dir = tile_dir datadir (tiles p)"
  define msg where "msg = ''Downloading '' @ tiles p @ '' '' @ py_str (origin_dates p)
                            @ '' '' @ py_str (ids p) @ ''...''"
  define s3 where "s3 = after_makedirs st dir
          (Post token_url (token_data Dataspace_username Dataspace_password))
          (SessionGet (zipper_url (py_str (ids p))) [(''Authorization'', ''Bearer '' @ tok)])"
  have run: "\<And>uz. download_products e p datadir uz max_retries verbose st =
      (if uz = False
       then io_bind (open_wb path) (\<lambda>_. io_bind (py_print msg) (\<lambda>_.
              iter_content_write path body))
       else io_return ()) s3"
    unfolding download_products_after_makedirs[OF tok resp clear] path_def msg_def s3_def dir_def
    by simp
  have dirs3: "dirs s3 = (if path_exists st dir then dirs st
                          else dirs st \<union> set (ancestors dir) \<union> {dir})"
    by (simp add: s3_def after_makedirs_fields)
  have after: "\<And>uz. dirs (snd (download_products e p datadir uz max_retries verbose st)) =
                  dirs s3"
    unfolding run
    by (simp add: io_bind_def io_return_def open_wb_def py_print_def
        iter_content_write_def Let_def write_chunks_dirs)
  have noerr: "fst (download_products e p datadir unzip max_retries verbose st) \<noteq>
                 Inl (FileExistsError dir)"
    unfolding run
    by (simp add: io_bind_def io_return_def open_wb_def py_print_def
        iter_content_write_def Let_def)
  have ok: "fst (download_products e p datadir True max_retries verbose st) = Inr ()"
    unfolding run by (simp add: io_return_def)
  show ?thesis
    unfolding dir_def[symmetric] using noerr ok
    by (auto simp: after dirs3 path_exists_def)
qed

theorem download_products_makedirs_witness:
  "''../T16QEJ'' \<in> dirs (snd (download_products example_env example_product ''../'' False 5 True st0)) \<and>
   ''data/out/T16QEJ''
     \<in> dirs (snd (download_products example_env example_product ''data/out/'' False 5 True st0)) \<and>
   dirs (snd (download_products example_env example_product ''../'' False 5 True
           (st0\<lparr>dirs := {''..'', ''../T16QEJ''}\<rparr>))) = {''..'', ''../T16QEJ''} \<and>
   fst (download_products example_env example_product ''../'' False 5 True
           (st0\<lparr>dirs := {''..'', ''../T16QEJ''}\<rparr>)) \<noteq> Inl (FileExistsError ''../T16QEJ'') \<and>
   fst (download_products example_env example_product ''../'' True 5 True
           (st0\<lparr>dirs := {''..'', ''../T16QEJ''}\<rparr>)) = Inr ()"
proof -
  let ?tok = "\<lambda>s. emit (Post token_url (token_data Dataspace_username Dataspace_password)) s"
  let ?st0' = "st0\<lparr>dirs := {''..'', ''../T16QEJ''}\<rparr>"
  have h1: "\<And>s. get_access_token example_env Dataspace_username Dataspace_password s =
              (Inr ''tok'', ?tok s)"
    by (simp add: get_access_token_def example_env_def raise_for_status_def)
  have h2: "\<And>s. session_get example_env (trace (?tok s)) (zipper_url (py_str (ids example_product)))
              [(''Authorization'', ''Bearer '' @ ''tok'')] =
            Response 200 ([[1, 2], [], [3]], False)"
    by (simp add: example_env_def)
  have h3: "\<And>d. \<forall>q \<in> set (ancestors (tile_dir d (tiles example_product))). files st0 q = None"
    by (simp add: st0_def)
  have h3': "\<forall>q \<in> set (ancestors (tile_dir ''../'' (tiles example_product))). files ?st0' q = None"
    by (simp add: st0_def)
  from download_products_makedirs[OF h1 h2 h3, of "''../''" False 5 True]
       download_products_makedirs[OF h1 h2 h3, of "''data/out/''" False 5 True]
       download_products_makedirs[OF h1 h2 h3', of False 5 True]
  show ?thesis
    by (simp add: example_product_def st0_def path_exists_def tile_dir_def)
qed

text \<open>
  C9. \<open>max_retries\<close> is never read: two calls of Download, or of the loop, that differ
  in it alone return the same result and leave the same state, trace and files included.
  Nothing is retried either: one call of Download adds at most one download request to
  the trace, whether the download fails or not.
\<close>

theorem max_retries_ignored:
  "download_products e p datadir unzip m1 verbose st =
     download_products e p datadir unzip m2 verbose st \<and>
   search_and_download_datasets e ts start_date end_date datadir unzip m1 verbose query_args st =
     search_and_download_datasets e ts start_date end_date datadir unzip m2 verbose query_args st \<and>
   length (filter is_download_request
             (trace (snd (download_products e p datadir unzip m1 verbose st)))) \<le>
     Suc (length (filter is_download_request (trace st)))"
proof -
  have a: "\<And>p. download_products e p datadir unzip m1 verbose =
                download_products e p datadir unzip m2 verbose"
    by (simp add: download_products_def)
  have b: "search_and_download_datasets e ts start_date end_date datadir unzip m1 verbose query_args =
           search_and_download_datasets e ts start_date end_date datadir unzip m2 verbose query_args"
    by (induction ts) (simp_all add: a)
  have c: "length (filter is_download_request
             (trace (snd (download_products e p datadir unzip m1 verbose st)))) \<le>
           Suc (length (filter is_download_request (trace st)))"
    by (rule download_products_download_requests)
  from a b c show ?thesis by simp
qed

theorem max_retries_ignored_witness:
  "download_products example_env example_product ''../'' False 5 True st0 =
     download_products example_env example_product ''../'' False 0 True st0 \<and>
   search_and_download_datasets example_env tiles_test \<lparr>year = 2024, month = 1, day = 16\<rparr>
       \<lparr>year = 2024, month = 1, day = 16\<rparr> ''../'' False 3 True PyNone st0 =
     search_and_download_datasets example_env tiles_test \<lparr>year = 2024, month = 1, day = 16\<rparr>
       \<lparr>year = 2024, month = 1, day = 16\<rparr> ''../'' False 5 True PyNone st0"
  using max_retries_ignored[of example_env example_product "''../''" False 5 True st0 0
      tiles_test "\<lparr>year = 2024, month = 1, day = 16\<rparr>" "\<lparr>year = 2024, month = 1, day = 16\<rparr>" PyNone]
    max_retries_ignored[of example_env example_product "''../''" False 3 True st0 5
      tiles_test "\<lparr>year = 2024, month = 1, day = 16\<rparr>" "\<lparr>year = 2024, month = 1, day = 16\<rparr>" PyNone]
  by simp

subsection \<open>The Orchestrator\<close>

text \<open>
  C8. When the tiles before some tile have been processed and Search raises on that tile,
  the loop ends there: its result is that error and its final state is the state Search
  left, whatever tiles follow. Nothing is requested, printed, created or written for them.
\<close>

theorem search_and_download_datasets_fail_fast:
  assumes "search_and_download_datasets e before start_date end_date datadir unzip max_retries
             verbose query_args st = (Inr (), st1)"
    and "search_products e tile start_date (PyDate end_date) ''L1C'' PyNone query_args st1 =
           (Inl err, st2)"
  shows "search_and_download_datasets e (before @ tile # after) start_date end_date datadir unzip
           max_retries verbose query_args st = (Inl err, st2)"
  using assms by (simp add: search_and_download_datasets_append io_bind_def)

lemma example_first_tile:
  "fst (search_and_download_datasets example_env [''16QEJ''] \<lparr>year = 2024, month = 1, day = 16\<rparr>
     \<lparr>year = 2024, month = 1, day = 16\<rparr> ''../'' False 3 True PyNone st0) = Inr ()"
  by (simp add: search_products_def download_products_def get_access_token_def
      requests_get_json_def session_get_stream_def io_bind_def io_return_def io_lift_def
      json_value_def dataframe_iloc0_def series_get_def py_print_def os_makedirs_def open_wb_def
      iter_content_write_def file_write_def path_exists_def emit_def raise_for_status_def
      example_env_def example_row_def st0_def strftime_Ymd_def digit_def
      tile_dir_def zip_path_def dirname_def ancestors_def Let_def)

theorem search_and_download_datasets_fail_fast_witness:
  "search_and_download_datasets example_env [''16QEJ'', ''16QDH'', ''16QCJ'']
     \<lparr>year = 2024, month = 1, day = 16\<rparr> \<lparr>year = 2024, month = 1, day = 16\<rparr>
     ''../'' False 3 True PyNone st0 =
   search_and_download_datasets example_env [''16QEJ'', ''16QDH'']
     \<lparr>year = 2024, month = 1, day = 16\<rparr> \<lparr>year = 2024, month = 1, day = 16\<rparr>
     ''../'' False 3 True PyNone st0 \<and>
   fst (search_and_download_datasets example_env [''16QEJ'', ''16QDH'', ''16QCJ'']
     \<lparr>year = 2024, month = 1, day = 16\<rparr> \<lparr>year = 2024, month = 1, day = 16\<rparr>
     ''../'' False 3 True PyNone st0) = Inl IndexError"
proof -
  let ?d = "\<lparr>year = 2024, month = 1, day = 16\<rparr>"
  let ?st1 = "snd (search_and_download_datasets example_env [''16QEJ''] ?d ?d ''../'' False 3 True
                     PyNone st0)"
  let ?url = "catalogue_url (''MSIL1C_'' @ strftime_Ymd ?d) ''16QDH''"
  have h1: "search_and_download_datasets example_env [''16QEJ''] ?d ?d ''../'' False 3 True
              PyNone st0 = (Inr (), ?st1)"
    using example_first_tile by (simp add: prod_eq_iff)
  have g: "requests_get example_env (trace ?st1) ?url = Response 200 (Some (Value []))"
    by (simp add: example_env_def catalogue_url_def strftime_Ymd_def digit_def)
  have h2: "search_products example_env ''16QDH'' ?d (PyDate ?d) ''L1C'' PyNone PyNone ?st1 =
              (Inl IndexError, emit (Get ?url) ?st1)"
    using g
    by (simp add: search_products_def io_bind_def requests_get_json_def io_lift_def
        json_value_def dataframe_iloc0_def)
  from search_and_download_datasets_fail_fast[OF h1 h2, of "[''16QCJ'']"]
       search_and_download_datasets_fail_fast[OF h1 h2, of "[]"]
  show ?thesis by simp
qed

text \<open>
  C1, as amended. The query of the loop's calls to Search is built from the start date.
  In a run of the loop, the requests to the catalogue are, in the order of the tile list
  and for the tiles the run reaches (the first of them always), the GET of the catalogue
  URL holding \<open>MSIL1C_\<close> and the start date in the form YYYYMMDD, with the tile; there is
  no other request to the catalogue. The end date is bound to the parameter
  \<open>search_string\<close>, which Search never reads: the loop does the same for any two end
  dates.
\<close>

theorem orchestrator_query_from_start_date:
  "search_and_download_datasets e ts start_date end_date datadir unzip max_retries verbose
     query_args =
   search_and_download_datasets e ts start_date end_date' datadir unzip max_retries verbose
     query_args \<and>
   (\<exists>k. min 1 (length ts) \<le> k \<and> k \<le> length ts \<and>
      filter is_search_request
        (trace (snd (search_and_download_datasets e ts start_date end_date datadir unzip
                       max_retries verbose query_args st))) =
      filter is_search_request (trace st) @
        map (\<lambda>tile. Get (catalogue_url (''MSIL1C_'' @ strftime_Ymd start_date) tile))
          (take k ts))"
proof -
  let ?get = "\<lambda>tile. Get (catalogue_url (''MSIL1C_'' @ strftime_Ymd start_date) tile)"
  let ?run = "\<lambda>ts. search_and_download_datasets e ts start_date end_date datadir unzip
                      max_retries verbose query_args"
  have a: "search_and_download_datasets e ts start_date end_date datadir unzip max_retries verbose
             query_args =
           search_and_download_datasets e ts start_date end_date' datadir unzip max_retries verbose
             query_args"
    by (induction ts) (simp_all add: search_products_def)
  have b: "\<exists>k. min 1 (length ts) \<le> k \<and> k \<le> length ts \<and>
             filter is_search_request (trace (snd (?run ts st))) =
             filter is_search_request (trace st) @ map ?get (take k ts)"
  proof (induction ts arbitrary: st)
    case Nil
    show ?case by (simp add: io_return_def)
  next
    case (Cons t ts)
    obtain r st1 where
      m: "search_products e t start_date (PyDate end_date) ''L1C'' PyNone query_args st = (r, st1)"
      by (cases "search_products e t start_date (PyDate end_date) ''L1C'' PyNone query_args st")
    have s1: "filter is_search_request (trace st1) =
                filter is_search_request (trace st) @ [?get t]"
      using search_products_search_requests[of e t start_date "PyDate end_date" PyNone
          query_args st] m by simp
    show ?case
    proof (cases r)
      case (Inl err)
      with m have "snd (?run (t # ts) st) = st1" by (simp add: io_bind_def)
      with s1 have "min 1 (length (t # ts)) \<le> 1 \<and> 1 \<le> length (t # ts) \<and>
          filter is_search_request (trace (snd (?run (t # ts) st))) =
          filter is_search_request (trace st) @ map ?get (take 1 (t # ts))"
        by simp
      then show ?thesis by blast
    next
      case (Inr products)
      obtain r2 st2 where
        d: "download_products e products datadir unzip max_retries verbose st1 = (r2, st2)"
        by (cases "download_products e products datadir unzip max_retries verbose st1")
      have s2: "filter is_search_request (trace st2) =
                  filter is_search_request (trace st) @ [?get t]"
        using download_products_search_requests[of e products datadir unzip max_retries
            verbose st1] d s1 by simp
      show ?thesis
      proof (cases r2)
        case (Inl err)
        with m Inr d have "snd (?run (t # ts) st) = st2" by (simp add: io_bind_def)
        with s2 have "min 1 (length (t # ts)) \<le> 1 \<and> 1 \<le> length (t # ts) \<and>
            filter is_search_request (trace (snd (?run (t # ts) st))) =
            filter is_search_request (trace st) @ map ?get (take 1 (t # ts))"
          by simp
        then show ?thesis by blast
      next
        case (Inr u)
        with m \<open>r = Inr products\<close> d have run: "?run (t # ts) st = ?run ts st2"
          by (simp add: io_bind_def)
        from Cons.IH[of st2] obtain k where
          k: "k \<le> length ts"
             "filter is_search_request (trace (snd (?run ts st2))) =
              filter is_search_request (trace st2) @ map ?get (take k ts)"
          by blast
        from k s2 run have "min 1 (length (t # ts)) \<le> Suc k \<and> Suc k \<le> length (t # ts) \<and>
            filter is_search_request (trace (snd (?run (t # ts) st))) =
            filter is_search_request (trace st) @ map ?get (take (Suc k) (t # ts))"
          by simp
        then show ?thesis by blast
      qed
    qed
  qed
  from a b show ?thesis by simp
qed

lemma example_run_requests:
  "filter is_search_request
     (trace (snd (search_and_download_datasets example_env [''16QEJ'', ''16QDH'']
                    \<lparr>year = 2024, month = 1, day = 16\<rparr> \<lparr>year = 2024, month = 1, day = 17\<rparr>
                    ''../'' False 3 True PyNone st0))) =
   [Get (catalogue_url ''MSIL1C_20240116'' ''16QEJ''),
    Get (catalogue_url ''MSIL1C_20240116'' ''16QDH'')]"
  by (simp add: search_products_def download_products_def get_access_token_def
      requests_get_json_def session_get_stream_def io_bind_def io_return_def io_lift_def
      json_value_def dataframe_iloc0_def series_get_def py_print_def os_makedirs_def open_wb_def
      iter_content_write_def file_write_def path_exists_def emit_def raise_for_status_def
      example_env_def example_row_def st0_def strftime_Ymd_def digit_def
      tile_dir_def zip_path_def dirname_def ancestors_def Let_def)

theorem orchestrator_query_from_start_date_witness:
  "search_and_download_datasets example_env [''16QEJ'', ''16QDH'']
     \<lparr>year = 2024, month = 1, day = 16\<rparr> \<lparr>year = 2024, month = 1, day = 17\<rparr>
     ''../'' False 3 True PyNone st0 =
   search_and_download_datasets example_env [''16QEJ'', ''16QDH'']
     \<lparr>year = 2024, month = 1, day = 16\<rparr> \<lparr>year = 2024, month = 1, day = 16\<rparr>
     ''../'' False 3 True PyNone st0 \<and>
   filter is_search_request
     (trace (snd (search_and_download_datasets example_env [''16QEJ'', ''16QDH'']
                    \<lparr>year = 2024, month = 1, day = 16\<rparr> \<lparr>year = 2024, month = 1, day = 17\<rparr>
                    ''../'' False 3 True PyNone st0))) =
   [Get (catalogue_url ''MSIL1C_20240116'' ''16QEJ''),
    Get (catalogue_url ''MSIL1C_20240116'' ''16QDH'')]"
proof -
  have a: "search_and_download_datasets example_env [''16QEJ'', ''16QDH'']
     \<lparr>year = 2024, month = 1, day = 16\<rparr> \<lparr>year = 2024, month = 1, day = 17\<rparr>
     ''../'' False 3 True PyNone st0 =
   search_and_download_datasets example_env [''16QEJ'', ''16QDH'']
     \<lparr>year = 2024, month = 1, day = 16\<rparr> \<lparr>year = 2024, month = 1, day = 16\<rparr>
     ''../'' False 3 True PyNone st0"
    using orchestrator_query_from_start_date[of example_env "[''16QEJ'', ''16QDH'']"
      "\<lparr>year = 2024, month = 1, day = 16\<rparr>" "\<lparr>year = 2024, month = 1, day = 17\<rparr>"
      "''../''" False 3 True PyNone "\<lparr>year = 2024, month = 1, day = 16\<rparr>" st0]
    by simp
  show ?thesis by (rule conjI[OF a example_run_requests])
qed

text \<open>
  C1 as stated fails. With the start date 16 January 2024 and the end date 17 January
  2024, the one request of the loop on a network that is down is the GET whose query
  holds \<open>MSIL1C_20240116\<close>, and that is not the URL built from the end date.
\<close>

theorem orchestrator_query_from_end_date_counterexample:
  "trace (snd (search_and_download_datasets offline_env [''16QEJ'']
                 \<lparr>year = 2024, month = 1, day = 16\<rparr> \<lparr>year = 2024, month = 1, day = 17\<rparr>
                 ''../'' False 3 True PyNone st0)) =
     [Get (catalogue_url ''MSIL1C_20240116'' ''16QEJ'')] \<and>
   catalogue_url ''MSIL1C_20240116'' ''16QEJ'' \<noteq>
     catalogue_url (''MSIL1C_'' @ strftime_Ymd \<lparr>year = 2024, month = 1, day = 17\<rparr>) ''16QEJ''"
  by (simp add: search_products_def requests_get_json_def io_bind_def emit_def offline_env_def
      st0_def strftime_Ymd_def digit_def catalogue_url_def)

end
